theory Spec2Isabelle
  imports Main "HOL-Library.Word"
begin

section \<open>Data model of the domain layer (PolarMqtt.cpp)\<close>

text \<open>
  Machine integers keep their widths: \<open>int\<close> and \<open>int32_t\<close> are 32-bit words,
  \<open>int64_t\<close> is a 64-bit word (read as signed through \<open>sint\<close>), \<open>uint16_t\<close> a 16-bit
  word, \<open>uint8_t\<close> an 8-bit word. Pointers are addresses (\<open>nat\<close>); a pointer that may
  be null is an \<open>option\<close>, \<open>None\<close> standing for \<open>nullptr\<close>.
\<close>

type_synonym cint = "32 word"
type_synonym int64_t = "64 word"
type_synonym ptr = nat
type_synonym MQTTClient = "ptr option"

datatype QoS = AT_MOST_ONCE | AT_LEAST_ONCE | EXACTLY_ONCE

datatype SessionState = DISCONNECTED | CONNECTING | CONNECTED | RECONNECTING

datatype Parameter =
    KEEP_ALIVE_INTERVAL
  | CLEAN_SESSION
  | CONNECTION_TIMEOUT
  | MAX_INFLIGHT
  | MAX_QUEUED_MESSAGES
  | RECONNECT_DELAY
  | TLS_ENABLED

text \<open>\<open>static_cast<int>(qos)\<close> on the enum class \<open>Message::QoS\<close>.\<close>

fun QoS_to_int :: "QoS \<Rightarrow> cint" where
  "QoS_to_int AT_MOST_ONCE = 0"
| "QoS_to_int AT_LEAST_ONCE = 1"
| "QoS_to_int EXACTLY_ONCE = 2"

text \<open>\<open>Message::Impl\<close>. The \<open>qos\<close> field holds the raw value of the enum class
  (underlying type \<open>int32_t\<close>), since the inbound path casts the engine's integer into it.\<close>

record Message =
  topic :: string
  payload :: "8 word list"
  qos :: cint
  retained :: bool
  messageId :: int64_t

text \<open>\<open>ConnectionConfig::Impl\<close>, with the default member initialisers of the source;
  \<open>new Impl()\<close> value-initialises the members that have none (port 0, empty strings).\<close>

record ConnectionConfig =
  broker :: string
  port :: "16 word"
  username :: string
  password :: string
  caFile :: string
  certFile :: string
  keyFile :: string
  keepAliveInterval :: cint
  cleanSession :: bool
  connectionTimeout :: cint
  maxInflight :: cint
  maxQueuedMessages :: cint
  reconnectDelay :: cint
  tlsEnabled :: bool

definition ConnectionConfig_init :: ConnectionConfig where
  "ConnectionConfig_init =
     \<lparr>broker = [], port = 0, username = [], password = [],
      caFile = [], certFile = [], keyFile = [],
      keepAliveInterval = 60, cleanSession = True, connectionTimeout = 30,
      maxInflight = 10, maxQueuedMessages = 100, reconnectDelay = 5,
      tlsEnabled = False\<rparr>"

text \<open>The two overloads of \<open>ConnectionConfig::set\<close>; every code without a case of its
  own falls into \<open>default: break\<close>.\<close>

fun ConnectionConfig_set_int :: "Parameter \<Rightarrow> cint \<Rightarrow> ConnectionConfig \<Rightarrow> ConnectionConfig" where
  "ConnectionConfig_set_int KEEP_ALIVE_INTERVAL v c = c\<lparr>keepAliveInterval := v\<rparr>"
| "ConnectionConfig_set_int CONNECTION_TIMEOUT v c = c\<lparr>connectionTimeout := v\<rparr>"
| "ConnectionConfig_set_int MAX_INFLIGHT v c = c\<lparr>maxInflight := v\<rparr>"
| "ConnectionConfig_set_int MAX_QUEUED_MESSAGES v c = c\<lparr>maxQueuedMessages := v\<rparr>"
| "ConnectionConfig_set_int RECONNECT_DELAY v c = c\<lparr>reconnectDelay := v\<rparr>"
| "ConnectionConfig_set_int _ v c = c"

fun ConnectionConfig_set_bool :: "Parameter \<Rightarrow> bool \<Rightarrow> ConnectionConfig \<Rightarrow> ConnectionConfig" where
  "ConnectionConfig_set_bool CLEAN_SESSION v c = c\<lparr>cleanSession := v\<rparr>"
| "ConnectionConfig_set_bool TLS_ENABLED v c = c\<lparr>tlsEnabled := v\<rparr>"
| "ConnectionConfig_set_bool _ v c = c"

text \<open>The string setters take \<open>const char *\<close> arguments; a null pointer is stored as the
  empty string (\<open>url ? url : ""\<close>).\<close>

definition cstr :: "string option \<Rightarrow> string" where
  "cstr p = (case p of None \<Rightarrow> [] | Some s \<Rightarrow> s)"

definition setBroker :: "string option \<Rightarrow> 16 word \<Rightarrow> ConnectionConfig \<Rightarrow> ConnectionConfig" where
  "setBroker url prt c = c\<lparr>broker := cstr url, port := prt\<rparr>"

definition setCredentials :: "string option \<Rightarrow> string option \<Rightarrow> ConnectionConfig \<Rightarrow> ConnectionConfig" where
  "setCredentials usr pwd c = c\<lparr>username := cstr usr, password := cstr pwd\<rparr>"

definition setTlsCertificates ::
  "string option \<Rightarrow> string option \<Rightarrow> string option \<Rightarrow> ConnectionConfig \<Rightarrow> ConnectionConfig" where
  "setTlsCertificates ca cert key c =
     c\<lparr>caFile := cstr ca, certFile := cstr cert, keyFile := cstr key, tlsEnabled := True\<rparr>"

subsection \<open>What a call does beyond its return value\<close>

text \<open>
  The session talks to three parties: the native engine (calls into \<open>MQTTClient_*\<close>), the
  handler objects (virtual calls through the stored pointers) and the standard error
  stream. Each operation returns the list of these effects in program order, next to its
  return value and the updated session.
\<close>

record connectOptions =
  opt_keepAliveInterval :: cint
  opt_cleansession :: bool
  opt_retryInterval :: cint
  opt_reliable :: cint
  opt_credentials :: "(string \<times> string) option"
  opt_ssl :: "(string \<times> string \<times> string) option"

record MQTTClient_message =
  msg_payload :: "8 word list"
  msg_payloadlen :: cint
  msg_qos :: cint
  msg_retained :: bool
  msg_msgid :: cint

datatype engine_call =
    MQTTClient_create string string
  | MQTTClient_setCallbacks ptr
  | MQTTClient_connect ptr connectOptions
  | MQTTClient_disconnect ptr cint
  | MQTTClient_destroy ptr
  | MQTTClient_subscribe MQTTClient string cint
  | MQTTClient_unsubscribe MQTTClient string
  | MQTTClient_publishMessage MQTTClient string MQTTClient_message
  | MQTTClient_freeMessage
  | MQTTClient_free

datatype notification =
    OnStateChange SessionState
  | OnError cint string
  | OnMessage Message

datatype effect =
    Engine engine_call
  | Notify ptr notification
  | Cerr string

text \<open>\<open>Session::Impl\<close>. \<open>new Impl()\<close> value-initialises \<open>client\<close> to null; the counters
  start at 1.\<close>

record Session =
  client :: MQTTClient
  clientId :: string
  config :: ConnectionConfig
  msgHandler :: "ptr option"
  sessionHandler :: "ptr option"
  currentState :: SessionState
  subscriptions :: "int64_t \<rightharpoonup> string"
  nextSubHandle :: int64_t
  nextMessageId :: int64_t

definition Session_init :: "string \<Rightarrow> ptr \<Rightarrow> Session" where
  "Session_init cid handler =
     \<lparr>client = None, clientId = cid, config = ConnectionConfig_init,
      msgHandler = None, sessionHandler = Some handler,
      currentState = DISCONNECTED, subscriptions = Map.empty,
      nextSubHandle = 1, nextMessageId = 1\<rparr>"

text \<open>\<open>if (impl_->sessionHandler) impl_->sessionHandler->...\<close>: the virtual call happens
  only through a non-null pointer.\<close>

definition notify :: "Session \<Rightarrow> notification \<Rightarrow> effect list" where
  "notify s n = (case sessionHandler s of None \<Rightarrow> [] | Some h \<Rightarrow> [Notify h n])"

text \<open>\<open>std::to_string\<close> on the port: decimal digits, most significant first.\<close>

definition digit_char :: "nat \<Rightarrow> char" where
  "digit_char d = ''0123456789'' ! d"

function to_string :: "nat \<Rightarrow> string" where
  "to_string n = (if n < 10 then [digit_char n] else to_string (n div 10) @ [digit_char (n mod 10)])"
  by pat_completeness auto
termination
  by (relation "measure id") auto

declare to_string.simps [simp del]

definition Session_getState :: "Session \<Rightarrow> SessionState" where
  "Session_getState s = currentState s"

definition serverURI :: "ConnectionConfig \<Rightarrow> string" where
  "serverURI cfg =
     (if tlsEnabled cfg then ''ssl://'' else ''tcp://'') @ broker cfg @ '':'' @ to_string (unat (port cfg))"

definition conn_opts :: "ConnectionConfig \<Rightarrow> connectOptions" where
  "conn_opts cfg =
     \<lparr>opt_keepAliveInterval = keepAliveInterval cfg,
      opt_cleansession = cleanSession cfg,
      opt_retryInterval = reconnectDelay cfg,
      opt_reliable = 1,
      opt_credentials = (if username cfg \<noteq> [] then Some (username cfg, password cfg) else None),
      opt_ssl = (if tlsEnabled cfg then Some (caFile cfg, certFile cfg, keyFile cfg) else None)\<rparr>"

text \<open>
  \<open>Session::start\<close>. The engine's answers are arguments: \<open>create_rc\<close> is what
  \<open>MQTTClient_create\<close> returns and \<open>h\<close> the handle it stores on success (on failure the
  handle is left as it was), \<open>connect_rc\<close> is what \<open>MQTTClient_connect\<close> returns.
  \<open>MQTTCLIENT_SUCCESS\<close> is 0. The first guard of the source (null implementation
  pointers) cannot fire on a constructed session and has no branch here.
\<close>

definition Session_start :: "cint \<Rightarrow> ptr \<Rightarrow> cint \<Rightarrow> Session \<Rightarrow> bool \<times> Session \<times> effect list" where
  "Session_start create_rc h connect_rc s =
     (let cfg = config s in
      if broker cfg = [] then (False, s, [Cerr ''Broker URL not set''])
      else
        let e_create = [Engine (MQTTClient_create (serverURI cfg) (clientId s))] in
        if create_rc \<noteq> 0 then
          (False, s, e_create @ notify s (OnError create_rc ''Failed to create client''))
        else
          let s1 = s\<lparr>client := Some h\<rparr>;
              e_setup = [Engine (MQTTClient_setCallbacks h)];
              s2 = s1\<lparr>currentState := CONNECTING\<rparr>;
              e_connect = [Engine (MQTTClient_connect h (conn_opts cfg))]
          in
          if connect_rc \<noteq> 0 then
            (False, s2\<lparr>currentState := DISCONNECTED\<rparr>,
             e_create @ e_setup @ e_connect @ notify s2 (OnError connect_rc ''Connection failed''))
          else
            (let s3 = s2\<lparr>currentState := CONNECTED\<rparr> in
             (True, s3, e_create @ e_setup @ e_connect @ notify s3 (OnStateChange CONNECTED))))"

text \<open>\<open>Session::stop\<close>. \<open>MQTTClient_destroy\<close> takes the address of the handle and nulls
  it, which is what the guard \<open>if (impl_->client)\<close> relies on.\<close>

definition Session_stop :: "Session \<Rightarrow> bool \<times> Session \<times> effect list" where
  "Session_stop s =
     (case client s of
        None \<Rightarrow> (True, s, [])
      | Some c \<Rightarrow>
          (let s1 = s\<lparr>client := None\<rparr>;
               s2 = s1\<lparr>currentState := DISCONNECTED\<rparr>
           in (True, s2,
               [Engine (MQTTClient_disconnect c 10000), Engine (MQTTClient_destroy c)]
               @ notify s2 (OnStateChange DISCONNECTED))))"

text \<open>\<open>Session::subscribe\<close>; \<open>rc\<close> is the engine's answer to \<open>MQTTClient_subscribe\<close>.\<close>

definition Session_subscribe :: "cint \<Rightarrow> string \<Rightarrow> QoS \<Rightarrow> Session \<Rightarrow> int64_t \<times> Session \<times> effect list" where
  "Session_subscribe rc tp q s =
     (let e = [Engine (MQTTClient_subscribe (client s) tp (QoS_to_int q))] in
      if rc \<noteq> 0 then (- 1, s, e @ notify s (OnError rc ''Subscribe failed''))
      else
        let handle = nextSubHandle s;
            s1 = s\<lparr>nextSubHandle := nextSubHandle s + 1\<rparr>;
            s2 = s1\<lparr>subscriptions := (subscriptions s1)(handle \<mapsto> tp)\<rparr>
        in (handle, s2, e))"

text \<open>\<open>Session::unsubscribe\<close>; \<open>rc\<close> is the engine's answer to \<open>MQTTClient_unsubscribe\<close>,
  asked only when the handle is in the table.\<close>

definition Session_unsubscribe :: "cint \<Rightarrow> int64_t \<Rightarrow> Session \<Rightarrow> bool \<times> Session \<times> effect list" where
  "Session_unsubscribe rc handle s =
     (case subscriptions s handle of
        None \<Rightarrow> (False, s, [])
      | Some tp \<Rightarrow>
          (let e = [Engine (MQTTClient_unsubscribe (client s) tp)] in
           if rc \<noteq> 0 then (False, s, e @ notify s (OnError rc ''Unsubscribe failed''))
           else (True, s\<lparr>subscriptions := (subscriptions s)(handle := None)\<rparr>, e)))"

text \<open>\<open>Session::publish\<close>; \<open>rc\<close> is the engine's answer to \<open>MQTTClient_publishMessage\<close>.
  The length argument is the length of the payload; the two \<open>static_cast<int>\<close> truncate
  to 32 bits.\<close>

definition Session_publish ::
  "cint \<Rightarrow> string \<Rightarrow> 8 word list \<Rightarrow> QoS \<Rightarrow> bool \<Rightarrow> Session \<Rightarrow> int64_t \<times> Session \<times> effect list" where
  "Session_publish rc tp pl q retain s =
     (let messageId = nextMessageId s;
          s1 = s\<lparr>nextMessageId := nextMessageId s + 1\<rparr>;
          pubmsg = \<lparr>msg_payload = pl, msg_payloadlen = of_nat (length pl),
                    msg_qos = QoS_to_int q, msg_retained = retain,
                    msg_msgid = ucast messageId\<rparr>;
          e = [Engine (MQTTClient_publishMessage (client s1) tp pubmsg)]
      in
      if rc \<noteq> 0 then (- 1, s1, e @ notify s1 (OnError rc ''Publish failed''))
      else (messageId, s1, e))"

definition setMessageHandler :: "ptr option \<Rightarrow> Session \<Rightarrow> Session" where
  "setMessageHandler handler s = s\<lparr>msgHandler := handler\<rparr>"

definition setSessionHandler :: "ptr option \<Rightarrow> Session \<Rightarrow> Session" where
  "setSessionHandler handler s = s\<lparr>sessionHandler := handler\<rparr>"

text \<open>The two trampolines the engine calls on its own thread. \<open>cause\<close> and \<open>topicName\<close>
  are C strings that may be null.\<close>

definition onConnectionLost :: "string option \<Rightarrow> Session \<Rightarrow> Session \<times> effect list" where
  "onConnectionLost cause s =
     (let s1 = s\<lparr>currentState := RECONNECTING\<rparr> in
      (s1,
       (case sessionHandler s1 of
          None \<Rightarrow> []
        | Some h \<Rightarrow>
            [Notify h (OnStateChange RECONNECTING),
             Notify h (OnError (- 1) (case cause of None \<Rightarrow> ''Connection lost'' | Some c \<Rightarrow> c))])))"

definition onMessageCallback :: "string option \<Rightarrow> MQTTClient_message \<Rightarrow> Session \<Rightarrow> cint \<times> effect list" where
  "onMessageCallback topicName message s =
     (1,
      (case msgHandler s of
         None \<Rightarrow> []
       | Some h \<Rightarrow>
           [Notify h (OnMessage
              \<lparr>topic = cstr topicName,
               payload = take (unat (msg_payloadlen message)) (msg_payload message),
               qos = msg_qos message,
               retained = msg_retained message,
               messageId = scast (msg_msgid message)\<rparr>)])
      @ [Engine MQTTClient_freeMessage, Engine MQTTClient_free])"

subsection \<open>Sequences of operations on one session\<close>

text \<open>
  A client of the session is a sequence of calls; each call carries the answers the
  engine gives during it. The two trampolines are calls made by the engine: it makes
  them only for a client that exists, so they are ignored while the session holds none.
  A client that a second start overwrites, with no stop in between, is lost to the
  session; what the engine does with it afterwards is not part of this model.
\<close>

datatype config_op =
    SetInt Parameter cint
  | SetBool Parameter bool
  | SetBroker "string option" "16 word"
  | SetCredentials "string option" "string option"
  | SetTlsCertificates "string option" "string option" "string option"

fun configure :: "config_op \<Rightarrow> ConnectionConfig \<Rightarrow> ConnectionConfig" where
  "configure (SetInt p v) c = ConnectionConfig_set_int p v c"
| "configure (SetBool p v) c = ConnectionConfig_set_bool p v c"
| "configure (SetBroker url prt) c = setBroker url prt c"
| "configure (SetCredentials usr pwd) c = setCredentials usr pwd c"
| "configure (SetTlsCertificates ca cert key) c = setTlsCertificates ca cert key c"

datatype op =
    Start cint ptr cint
  | Stop
  | Subscribe cint string QoS
  | Unsubscribe cint int64_t
  | Publish cint string "8 word list" QoS bool
  | GetState
  | Configure config_op
  | SetMessageHandler "ptr option"
  | SetSessionHandler "ptr option"
  | ConnectionLost "string option"
  | MessageArrived "string option" MQTTClient_message

datatype ret = RBool bool | RInt64 int64_t | RState SessionState | RInt cint | RVoid

fun step :: "op \<Rightarrow> Session \<Rightarrow> ret \<times> Session \<times> effect list" where
  "step (Start create_rc h connect_rc) s =
     (case Session_start create_rc h connect_rc s of (r, s', es) \<Rightarrow> (RBool r, s', es))"
| "step Stop s = (case Session_stop s of (r, s', es) \<Rightarrow> (RBool r, s', es))"
| "step (Subscribe rc tp q) s =
     (case Session_subscribe rc tp q s of (r, s', es) \<Rightarrow> (RInt64 r, s', es))"
| "step (Unsubscribe rc handle) s =
     (case Session_unsubscribe rc handle s of (r, s', es) \<Rightarrow> (RBool r, s', es))"
| "step (Publish rc tp pl q retain) s =
     (case Session_publish rc tp pl q retain s of (r, s', es) \<Rightarrow> (RInt64 r, s', es))"
| "step GetState s = (RState (Session_getState s), s, [])"
| "step (Configure c) s = (RVoid, s\<lparr>config := configure c (config s)\<rparr>, [])"
| "step (SetMessageHandler handler) s = (RVoid, setMessageHandler handler s, [])"
| "step (SetSessionHandler handler) s = (RVoid, setSessionHandler handler s, [])"
| "step (ConnectionLost cause) s =
     (case client s of
        None \<Rightarrow> (RVoid, s, [])
      | Some c \<Rightarrow> (case onConnectionLost cause s of (s', es) \<Rightarrow> (RVoid, s', es)))"
| "step (MessageArrived topicName message) s =
     (case client s of
        None \<Rightarrow> (RVoid, s, [])
      | Some c \<Rightarrow> (case onMessageCallback topicName message s of (r, es) \<Rightarrow> (RInt r, s, es)))"

text \<open>The session after a sequence of calls, and what each call returned.\<close>

primrec exec :: "op list \<Rightarrow> Session \<Rightarrow> Session" where
  "exec [] s = s"
| "exec (x # xs) s = exec xs (fst (snd (step x s)))"

primrec history :: "op list \<Rightarrow> Session \<Rightarrow> (op \<times> ret) list" where
  "history [] s = []"
| "history (x # xs) s = (x, fst (step x s)) # history xs (fst (snd (step x s)))"


fun returned_ids :: "(op \<times> ret) list \<Rightarrow> int64_t list" where
  "returned_ids [] = []"
| "returned_ids ((Publish rc tp pl q retain, RInt64 r) # tr) =
     (if r = - 1 then returned_ids tr else r # returned_ids tr)"
| "returned_ids (_ # tr) = returned_ids tr"

text \<open>The virtual calls among the effects of a call, and the state changes among them.\<close>

fun notifications :: "effect list \<Rightarrow> (ptr \<times> notification) list" where
  "notifications [] = []"
| "notifications (Notify h n # es) = (h, n) # notifications es"
| "notifications (_ # es) = notifications es"

fun state_changes :: "effect list \<Rightarrow> SessionState list" where
  "state_changes [] = []"
| "state_changes (Notify h (OnStateChange st) # es) = st # state_changes es"
| "state_changes (_ # es) = state_changes es"

fun errors_reported :: "effect list \<Rightarrow> (cint \<times> string) list" where
  "errors_reported [] = []"
| "errors_reported (Notify h (OnError c m) # es) = (c, m) # errors_reported es"
| "errors_reported (_ # es) = errors_reported es"


section \<open>The C bridge (mqtt_c.cpp)\<close>

text \<open>
  The bridge keeps process-wide state: the factory pointer, the two registries that own the
  handler adapters, and the objects it allocated. Objects live in typed heaps (a map from
  addresses to values); \<open>new\<close> takes the next address of a counter, so an address is
  never handed out twice. A \<open>unique_ptr\<close> in a registry is the address of the adapter it
  owns: erasing or overwriting the entry frees the adapter. The mutex is not modelled: the
  calls are taken one at a time.
\<close>

record mqtt_session_t =
  session :: "ptr option"
  message_cb :: "ptr option"
  state_cb :: "ptr option"
  error_cb :: "ptr option"
  user_context :: ptr

text \<open>The members \<open>state_cb_\<close>, \<open>error_cb_\<close>, \<open>context_\<close> and \<open>cb_\<close> of the adapters and the
  statics \<open>instance_\<close> and \<open>refCount_\<close> of the factory carry a prefix here, since a name
  cannot end in an underscore.\<close>

record SessionCallbackHandler =
  adapter_state_cb :: "ptr option"
  adapter_error_cb :: "ptr option"
  adapter_context :: ptr

record MessageCallbackHandler =
  adapter_cb :: "ptr option"
  adapter_msg_context :: ptr

record mqtt_message_data_t =
  d_topic :: string
  d_payload :: "8 word list"
  d_payload_length :: nat
  d_qos :: cint
  d_retained :: cint
  d_message_id :: int64_t

record bridge =
  factory_instance :: "ptr option"
  factory_refCount :: cint
  g_factory :: "ptr option"
  g_message_handlers :: "ptr \<rightharpoonup> ptr"
  g_session_handlers :: "ptr \<rightharpoonup> ptr"
  message_adapters :: "ptr \<rightharpoonup> MessageCallbackHandler"
  session_adapters :: "ptr \<rightharpoonup> SessionCallbackHandler"
  handles :: "ptr \<rightharpoonup> mqtt_session_t"
  sessions :: "ptr \<rightharpoonup> Session"
  next_addr :: ptr

definition bridge_init :: bridge where
  "bridge_init =
     \<lparr>factory_instance = None, factory_refCount = 0, g_factory = None,
      g_message_handlers = Map.empty, g_session_handlers = Map.empty,
      message_adapters = Map.empty, session_adapters = Map.empty,
      handles = Map.empty, sessions = Map.empty, next_addr = 1\<rparr>"

text \<open>
  What the outside sees of a bridge call, in program order: the C callbacks invoked
  through an adapter (function pointer, arguments, user context), the engine calls, the
  lines on standard error, and the objects freed. A virtual call through a pointer whose
  adapter has been freed is undefined behaviour in C++; it is recorded as \<open>UseAfterFree\<close>.
\<close>

datatype event =
    StateCb ptr SessionState ptr
  | ErrorCb ptr cint string ptr
  | MessageCb ptr mqtt_message_data_t ptr
  | EngineCall engine_call
  | Stderr string
  | FreeMessageAdapter ptr
  | FreeSessionAdapter ptr
  | FreeSession ptr
  | FreeHandle ptr
  | UseAfterFree ptr

text \<open>\<open>SessionCallbackHandler::onStateChange\<close>, \<open>onError\<close> and
  \<open>MessageCallbackHandler::onMessage\<close>: forward to the C function pointer when it is not
  null.\<close>

definition msg_data :: "Message \<Rightarrow> mqtt_message_data_t" where
  "msg_data m =
     \<lparr>d_topic = topic m, d_payload = payload m, d_payload_length = length (payload m),
      d_qos = qos m, d_retained = (if retained m then 1 else 0), d_message_id = messageId m\<rparr>"

fun deliver :: "bridge \<Rightarrow> effect \<Rightarrow> event list" where
  "deliver w (Engine c) = [EngineCall c]"
| "deliver w (Cerr m) = [Stderr m]"
| "deliver w (Notify a (OnStateChange st)) =
     (case session_adapters w a of
        None \<Rightarrow> [UseAfterFree a]
      | Some ad \<Rightarrow> (case adapter_state_cb ad of None \<Rightarrow> [] | Some cb \<Rightarrow> [StateCb cb st (adapter_context ad)]))"
| "deliver w (Notify a (OnError code m)) =
     (case session_adapters w a of
        None \<Rightarrow> [UseAfterFree a]
      | Some ad \<Rightarrow> (case adapter_error_cb ad of None \<Rightarrow> [] | Some cb \<Rightarrow> [ErrorCb cb code m (adapter_context ad)]))"
| "deliver w (Notify a (OnMessage m)) =
     (case message_adapters w a of
        None \<Rightarrow> [UseAfterFree a]
      | Some ad \<Rightarrow> (case adapter_cb ad of None \<Rightarrow> [] | Some cb \<Rightarrow> [MessageCb cb (msg_data m) (adapter_msg_context ad)]))"

definition deliver_all :: "bridge \<Rightarrow> effect list \<Rightarrow> event list" where
  "deliver_all w es = concat (map (deliver w) es)"

text \<open>The guard \<open>if (!session || !session->session) return -1\<close> of every bridge
  function. A handle or session pointer that is not null must point to a live object for
  the C++ to be defined; one that does not is treated as invalid here.\<close>

definition lookup :: "ptr option \<Rightarrow> bridge \<Rightarrow> (ptr \<times> Session) option" where
  "lookup h w =
     (case h of
        None \<Rightarrow> None
      | Some hp \<Rightarrow>
          (case handles w hp of
             None \<Rightarrow> None
           | Some rec \<Rightarrow>
               (case session rec of
                  None \<Rightarrow> None
                | Some p \<Rightarrow> (case sessions w p of None \<Rightarrow> None | Some s \<Rightarrow> Some (p, s)))))"

text \<open>A call of a session operation on the session object at \<open>p\<close>: the object is updated
  in place and its effects reach the outside through the adapters as they are now.\<close>

definition call ::
  "(Session \<Rightarrow> 'r \<times> Session \<times> effect list) \<Rightarrow> ptr \<Rightarrow> Session \<Rightarrow> bridge \<Rightarrow> 'r \<times> bridge \<times> event list" where
  "call f p s w =
     (case f s of (r, s', es) \<Rightarrow> (r, w\<lparr>sessions := (sessions w)(p \<mapsto> s')\<rparr>, deliver_all w es))"

definition with_config :: "(ConnectionConfig \<Rightarrow> ConnectionConfig) \<Rightarrow> ptr option \<Rightarrow> bridge \<Rightarrow> cint \<times> bridge" where
  "with_config f h w =
     (case lookup h w of
        None \<Rightarrow> (- 1, w)
      | Some (p, s) \<Rightarrow> (0, w\<lparr>sessions := (sessions w)(p \<mapsto> s\<lparr>config := f (config s)\<rparr>)\<rparr>))"

definition mqtt_set_int_parameter :: "ptr option \<Rightarrow> Parameter \<Rightarrow> cint \<Rightarrow> bridge \<Rightarrow> cint \<times> bridge" where
  "mqtt_set_int_parameter h param v w = with_config (ConnectionConfig_set_int param v) h w"

definition mqtt_set_bool_parameter :: "ptr option \<Rightarrow> Parameter \<Rightarrow> cint \<Rightarrow> bridge \<Rightarrow> cint \<times> bridge" where
  "mqtt_set_bool_parameter h param v w = with_config (ConnectionConfig_set_bool param (v \<noteq> 0)) h w"

definition mqtt_set_broker :: "ptr option \<Rightarrow> string option \<Rightarrow> 16 word \<Rightarrow> bridge \<Rightarrow> cint \<times> bridge" where
  "mqtt_set_broker h url prt w = with_config (setBroker url prt) h w"

definition mqtt_set_credentials :: "ptr option \<Rightarrow> string option \<Rightarrow> string option \<Rightarrow> bridge \<Rightarrow> cint \<times> bridge" where
  "mqtt_set_credentials h usr pwd w = with_config (setCredentials usr pwd) h w"

definition mqtt_set_tls_certificates ::
  "ptr option \<Rightarrow> string option \<Rightarrow> string option \<Rightarrow> string option \<Rightarrow> bridge \<Rightarrow> cint \<times> bridge" where
  "mqtt_set_tls_certificates h ca cert key w = with_config (setTlsCertificates ca cert key) h w"

text \<open>\<open>APIFactory::getInstance\<close>, \<open>initialize\<close> (which returns 0) and \<open>uninitialize\<close>, and
  the two bridge functions around them.\<close>

definition getInstance :: "bridge \<Rightarrow> ptr option \<times> bridge" where
  "getInstance w =
     (let w1 = (case factory_instance w of
                  None \<Rightarrow> w\<lparr>factory_instance := Some (next_addr w), next_addr := next_addr w + 1\<rparr>
                | Some i \<Rightarrow> w);
          w2 = w1\<lparr>factory_refCount := factory_refCount w1 + 1\<rparr>
      in (factory_instance w2, w2))"

definition uninitialize :: "bridge \<Rightarrow> cint \<times> bridge" where
  "uninitialize w =
     (let w1 = w\<lparr>factory_refCount := factory_refCount w - 1\<rparr> in
      if factory_refCount w1 = 0 \<and> factory_instance w1 \<noteq> None then (0, w1\<lparr>factory_instance := None\<rparr>) else (0, w1))"

definition initialize :: "string \<Rightarrow> string \<Rightarrow> bool \<Rightarrow> string option \<Rightarrow> cint" where
  "initialize appName appVersion debug logFile = 0"

definition mqtt_initialize :: "string \<Rightarrow> string \<Rightarrow> cint \<Rightarrow> string option \<Rightarrow> bridge \<Rightarrow> cint \<times> bridge" where
  "mqtt_initialize app_name app_version debug log_file w =
     (case g_factory w of
        None \<Rightarrow>
          (case getInstance w of
             (f, w1) \<Rightarrow> (initialize app_name app_version (debug \<noteq> 0) log_file, w1\<lparr>g_factory := f\<rparr>))
      | Some f \<Rightarrow> (0, w))"

definition mqtt_uninitialize :: "bridge \<Rightarrow> cint \<times> bridge" where
  "mqtt_uninitialize w =
     (case g_factory w of
        None \<Rightarrow> (0, w)
      | Some f \<Rightarrow> (case uninitialize w of (result, w1) \<Rightarrow> (result, w1\<lparr>g_factory := None\<rparr>)))"

text \<open>Assignment to a registry entry (\<open>g_..._handlers[k] = std::move(p)\<close>) and \<open>erase\<close>: the
  adapter owned by the entry before, if there is one, is freed.\<close>

definition assign_message_handler :: "ptr \<Rightarrow> ptr \<Rightarrow> bridge \<Rightarrow> bridge" where
  "assign_message_handler k m w =
     (let w1 = (case g_message_handlers w k of
                  None \<Rightarrow> w
                | Some old \<Rightarrow> w\<lparr>message_adapters := (message_adapters w)(old := None)\<rparr>)
      in w1\<lparr>g_message_handlers := (g_message_handlers w1)(k \<mapsto> m)\<rparr>)"

definition assign_session_handler :: "ptr \<Rightarrow> ptr \<Rightarrow> bridge \<Rightarrow> bridge" where
  "assign_session_handler k a w =
     (let w1 = (case g_session_handlers w k of
                  None \<Rightarrow> w
                | Some old \<Rightarrow> w\<lparr>session_adapters := (session_adapters w)(old := None)\<rparr>)
      in w1\<lparr>g_session_handlers := (g_session_handlers w1)(k \<mapsto> a)\<rparr>)"



text \<open>\<open>mqtt_create_session\<close>. The three allocations are, in order, the session-handler
  adapter, the session (\<open>APIFactory::createSession\<close>) and the handle record; the message
  adapter is allocated only for a non-null message callback.\<close>

definition mqtt_create_session ::
  "string \<Rightarrow> ptr option \<Rightarrow> ptr option \<Rightarrow> ptr option \<Rightarrow> ptr \<Rightarrow> bridge \<Rightarrow> ptr option \<times> bridge" where
  "mqtt_create_session client_id mcb scb ecb ctx w =
     (case g_factory w of
        None \<Rightarrow> (None, w)
      | Some f \<Rightarrow>
          (let a = next_addr w;
               w1 = w\<lparr>session_adapters :=
                        (session_adapters w)(a \<mapsto> \<lparr>adapter_state_cb = scb, adapter_error_cb = ecb, adapter_context = ctx\<rparr>),
                      next_addr := a + 1\<rparr>;
               p = next_addr w1;
               w2 = w1\<lparr>sessions := (sessions w1)(p \<mapsto> Session_init client_id a), next_addr := p + 1\<rparr>;
               h = next_addr w2;
               w3 = w2\<lparr>handles :=
                        (handles w2)(h \<mapsto> \<lparr>session = Some p, message_cb = mcb, state_cb = scb,
                                            error_cb = ecb, user_context = ctx\<rparr>),
                       next_addr := h + 1\<rparr>;
               w4 = (case mcb of
                       None \<Rightarrow> w3
                     | Some cb \<Rightarrow>
                         (let m = next_addr w3;
                              w3a = w3\<lparr>message_adapters :=
                                         (message_adapters w3)(m \<mapsto> \<lparr>adapter_cb = Some cb, adapter_msg_context = ctx\<rparr>),
                                        next_addr := m + 1\<rparr>;
                              w3b = w3a\<lparr>sessions :=
                                          (sessions w3a)(p \<mapsto> setMessageHandler (Some m) (Session_init client_id a))\<rparr>
                          in assign_message_handler h m w3b))
           in (Some h, assign_session_handler h a w4)))"




text \<open>The session control, subscription and publishing functions: the guard, then the
  session operation, then the conversion of its result.\<close>

definition mqtt_session_get_state :: "ptr option \<Rightarrow> bridge \<Rightarrow> SessionState" where
  "mqtt_session_get_state h w =
     (case lookup h w of None \<Rightarrow> DISCONNECTED | Some (p, s) \<Rightarrow> Session_getState s)"

definition mqtt_session_start :: "cint \<Rightarrow> ptr \<Rightarrow> cint \<Rightarrow> ptr option \<Rightarrow> bridge \<Rightarrow> cint \<times> bridge \<times> event list" where
  "mqtt_session_start create_rc c connect_rc h w =
     (case lookup h w of
        None \<Rightarrow> (- 1, w, [])
      | Some (p, s) \<Rightarrow>
          (case call (Session_start create_rc c connect_rc) p s w of
             (r, w', ev) \<Rightarrow> (if r then 0 else - 1, w', ev)))"

definition mqtt_session_stop :: "ptr option \<Rightarrow> bridge \<Rightarrow> cint \<times> bridge \<times> event list" where
  "mqtt_session_stop h w =
     (case lookup h w of
        None \<Rightarrow> (- 1, w, [])
      | Some (p, s) \<Rightarrow>
          (case call Session_stop p s w of (r, w', ev) \<Rightarrow> (if r then 0 else - 1, w', ev)))"

definition mqtt_subscribe :: "cint \<Rightarrow> ptr option \<Rightarrow> string \<Rightarrow> QoS \<Rightarrow> bridge \<Rightarrow> int64_t \<times> bridge \<times> event list" where
  "mqtt_subscribe rc h tp q w =
     (case lookup h w of
        None \<Rightarrow> (- 1, w, [])
      | Some (p, s) \<Rightarrow> call (Session_subscribe rc tp q) p s w)"

definition mqtt_unsubscribe :: "cint \<Rightarrow> ptr option \<Rightarrow> int64_t \<Rightarrow> bridge \<Rightarrow> cint \<times> bridge \<times> event list" where
  "mqtt_unsubscribe rc h handle w =
     (case lookup h w of
        None \<Rightarrow> (- 1, w, [])
      | Some (p, s) \<Rightarrow>
          (case call (Session_unsubscribe rc handle) p s w of
             (r, w', ev) \<Rightarrow> (if r then 0 else - 1, w', ev)))"

definition mqtt_publish ::
  "cint \<Rightarrow> ptr option \<Rightarrow> string \<Rightarrow> 8 word list \<Rightarrow> QoS \<Rightarrow> cint \<Rightarrow> bridge \<Rightarrow> int64_t \<times> bridge \<times> event list" where
  "mqtt_publish rc h tp pl q retain w =
     (case lookup h w of
        None \<Rightarrow> (- 1, w, [])
      | Some (p, s) \<Rightarrow> call (Session_publish rc tp pl q (retain \<noteq> 0)) p s w)"




subsection \<open>Concrete sessions and call sequences\<close>

definition ops_C3 :: "op list" where
  "ops_C3 =
     [Subscribe 0 ''a/b'' AT_LEAST_ONCE,
      Publish 5 ''a/b'' [104, 105] AT_MOST_ONCE False,
      Unsubscribe 0 1,
      Subscribe 3 ''a/b'' AT_LEAST_ONCE,
      Subscribe 0 ''a/b'' AT_LEAST_ONCE,
      Publish 0 ''a/b'' [104, 105] AT_MOST_ONCE False]"

definition session_C1 :: Session where
  "session_C1 = (Session_init ''client-1'' 7)\<lparr>config := setBroker (Some ''test.broker'') 1883 ConnectionConfig_init\<rparr>"

definition session_C4 :: Session where
  "session_C4 = fst (snd (Session_subscribe 0 ''a/b'' AT_LEAST_ONCE (Session_init ''client-1'' 7)))"




definition bridge_C8 :: bridge where
  "bridge_C8 =
     snd (mqtt_create_session ''client-1'' None (Some 100) (Some 101) 55
            (snd (mqtt_initialize ''app'' ''1.0'' 0 None bridge_init)))"

section \<open>Properties\<close>

subsection \<open>Unfolding the operations\<close>

lemmas op_defs = Session_start_def Session_stop_def Session_subscribe_def
        Session_unsubscribe_def Session_publish_def setMessageHandler_def
        setSessionHandler_def onConnectionLost_def onMessageCallback_def Let_def

lemmas ex_defs = Session_init_def ConnectionConfig_init_def setBroker_def cstr_def notify_def


lemmas setup_defs = mqtt_initialize_def getInstance_def initialize_def bridge_init_def
  mqtt_create_session_def assign_message_handler_def assign_session_handler_def
  Session_init_def ConnectionConfig_init_def setMessageHandler_def mqtt_set_broker_def
  with_config_def lookup_def setBroker_def cstr_def mqtt_session_start_def call_def
  Session_start_def notify_def Let_def

subsection \<open>Reading the 64-bit counters as integers\<close>

lemma sint_small: "unat w < 2 ^ 63 \<Longrightarrow> sint w = int (unat w)" for w :: int64_t
proof -
  assume a: "unat w < 2 ^ 63"
  have "int (unat w) < int (2 ^ 63)" using a by (simp only: of_nat_less_iff)
  then have b: "int (unat w) < 2 ^ 63" by simp
  have c: "- (2 ^ 63) \<le> int (unat w)"
    by (rule order_trans [of _ 0]) simp_all
  have "signed_take_bit 63 (int (unat w)) = int (unat w)"
    using c b by (rule signed_take_bit_int_eq_self)
  then show ?thesis by (simp add: sint_uint)
qed

lemma neq_minus1: "unat w < 2 ^ 63 \<Longrightarrow> w \<noteq> - 1" for w :: int64_t
proof
  assume a: "unat w < 2 ^ 63" and b: "w = - 1"
  have "sint w = int (unat w)" using a by (rule sint_small)
  moreover have "sint w = - 1" by (simp only: b sint_n1)
  ultimately have "uint w = - 1" by simp
  moreover have "0 \<le> uint w" by simp
  ultimately show False by linarith
qed

lemma unat_succ: "unat w < 2 ^ 63 \<Longrightarrow> unat (w + 1) = Suc (unat w)" for w :: int64_t
proof -
  assume a: "unat w < 2 ^ 63"
  have "unat w + unat (1 :: int64_t) < 2 ^ LENGTH(64)" using a by simp
  then have "unat (w + 1) = unat w + unat (1 :: int64_t)" by (simp only: unat_add_lem)
  then show ?thesis by simp
qed



lemma step_nextMessageId:
  "nextMessageId (fst (snd (step x s))) =
     (case x of Publish rc tp pl q r \<Rightarrow> nextMessageId s + 1 | _ \<Rightarrow> nextMessageId s)"
  by (cases x) (simp_all add: op_defs split: option.splits)


lemma returned_ids_Cons:
  "returned_ids ((x, r) # tr) =
     (case x of
        Publish rc tp pl q rt \<Rightarrow>
          (case r of RInt64 h \<Rightarrow> if h = - 1 then returned_ids tr else h # returned_ids tr
           | _ \<Rightarrow> returned_ids tr)
      | _ \<Rightarrow> returned_ids tr)"
  by (cases x; cases r) simp_all


lemma step_Publish_ret:
  "fst (step (Publish rc tp pl q r) s) = RInt64 (if rc = 0 then nextMessageId s else - 1)"
  by (simp add: Session_publish_def Let_def)





lemma nextSubHandle_init [simp]: "nextSubHandle (Session_init cid h) = 1"
  and nextMessageId_init [simp]: "nextMessageId (Session_init cid h) = 1"
  by (simp_all add: Session_init_def)




subsection \<open>The session operations\<close>

lemma sint_succ: "sint w < 2 ^ 63 - 1 \<Longrightarrow> sint (w + 1) = sint w + 1" for w :: int64_t
proof -
  assume a: "sint w < 2 ^ 63 - 1"
  have lo: "- (2 ^ 63) \<le> sint w" using sint_ge [of w] by simp
  have "sint (w + 1) = signed_take_bit 63 (sint w + sint (1 :: int64_t))"
    by (simp only: sint_word_add) simp
  also have "\<dots> = signed_take_bit 63 (sint w + 1)" by simp
  also have "\<dots> = sint w + 1"
    using lo a by (intro signed_take_bit_int_eq_self) simp_all
  finally show ?thesis .
qed

text \<open>
  Claim C10. Whatever the engine answers, publish leaves the session as it was except for
  the message-id counter, which it increments by one (also as a signed integer, below the
  top of the range); the id of a failed publish is therefore skipped: the next successful
  publish returns the following one. A failed subscribe leaves the whole session
  unchanged, counters included.
\<close>

theorem publish_always_consumes_an_id:
  "fst (snd (Session_publish rc tp pl q r s)) = s\<lparr>nextMessageId := nextMessageId s + 1\<rparr> \<and>
   (sint (nextMessageId s) < 2 ^ 63 - 1 \<longrightarrow>
      sint (nextMessageId (fst (snd (Session_publish rc tp pl q r s)))) = sint (nextMessageId s) + 1) \<and>
   fst (Session_publish 0 tp' pl' q' r' (fst (snd (Session_publish rc tp pl q r s)))) = nextMessageId s + 1 \<and>
   (rc' \<noteq> 0 \<longrightarrow> fst (snd (Session_subscribe rc' tp' q' s)) = s)"
  by (simp add: Session_publish_def Session_subscribe_def Let_def sint_succ)

theorem publish_always_consumes_an_id_witness:
  "fst (Session_publish 4 ''t/1'' [1] AT_LEAST_ONCE False (Session_init ''c'' 7)) = - 1 \<and>
   nextMessageId (fst (snd (Session_publish 4 ''t/1'' [1] AT_LEAST_ONCE False (Session_init ''c'' 7)))) = 2 \<and>
   fst (Session_publish 0 ''t/1'' [1] AT_LEAST_ONCE False
          (fst (snd (Session_publish 4 ''t/1'' [1] AT_LEAST_ONCE False (Session_init ''c'' 7))))) = 2 \<and>
   (4 :: cint) \<noteq> 0 \<and>
   fst (snd (Session_subscribe 4 ''t/1'' AT_LEAST_ONCE (Session_init ''c'' 7))) = Session_init ''c'' 7"
  using publish_always_consumes_an_id [of 4 "''t/1''" "[1]" AT_LEAST_ONCE False "Session_init ''c'' 7"
      "''t/1''" "[1]" AT_LEAST_ONCE False 4]
  by (simp add: Session_init_def Session_publish_def Let_def)

text \<open>
  Claim C4. Unsubscribe with a handle that is not in the table returns false, calls
  nothing and leaves the session unchanged. With a handle that is in the table: when the
  engine succeeds it returns true and removes that entry and nothing else; when the engine
  fails it returns false, leaves the session (and so the entry) unchanged and calls
  \<open>onError\<close> on the installed handler once.
\<close>

theorem unsubscribe_cases:
  "(subscriptions s handle = None \<longrightarrow> Session_unsubscribe rc handle s = (False, s, [])) \<and>
   (subscriptions s handle = Some tp \<longrightarrow>
      Session_unsubscribe 0 handle s =
        (True, s\<lparr>subscriptions := (subscriptions s)(handle := None)\<rparr>,
         [Engine (MQTTClient_unsubscribe (client s) tp)])) \<and>
   (subscriptions s handle = Some tp \<and> rc \<noteq> 0 \<and> sessionHandler s = Some a \<longrightarrow>
      Session_unsubscribe rc handle s =
        (False, s,
         [Engine (MQTTClient_unsubscribe (client s) tp), Notify a (OnError rc ''Unsubscribe failed'')]))"
  by (simp add: Session_unsubscribe_def notify_def Let_def)

theorem unsubscribe_cases_witness:
  "subscriptions session_C4 2 = None \<and>
   Session_unsubscribe 5 2 session_C4 = (False, session_C4, []) \<and>
   subscriptions session_C4 1 = Some ''a/b'' \<and>
   fst (Session_unsubscribe 0 1 session_C4) \<and>
   subscriptions (fst (snd (Session_unsubscribe 0 1 session_C4))) 1 = None \<and>
   (5 :: cint) \<noteq> 0 \<and> sessionHandler session_C4 = Some 7 \<and>
   Session_unsubscribe 5 1 session_C4 =
     (False, session_C4,
      [Engine (MQTTClient_unsubscribe None ''a/b''), Notify 7 (OnError 5 ''Unsubscribe failed'')])"
proof -
  have a: "subscriptions session_C4 2 = None"
    and b: "subscriptions session_C4 1 = Some ''a/b''"
    and c: "sessionHandler session_C4 = Some 7"
    and d: "client session_C4 = None"
    by (simp_all add: session_C4_def Session_subscribe_def Let_def ex_defs)
  from unsubscribe_cases [of session_C4 2 5 "''a/b''" 7]
       unsubscribe_cases [of session_C4 1 5 "''a/b''" 7] a b c d
  show ?thesis by simp
qed

text \<open>
  Claim C1, as the code has it. A call to start that returns true had a non-empty broker,
  leaves the session in state Connected, and calls \<open>onStateChange\<close> on the installed
  handler exactly once, with Connected, and makes no other call on it: the handler is not
  told of Connecting.
\<close>

theorem start_notifies_connected_once:
  assumes "fst (Session_start create_rc h connect_rc s)" and "sessionHandler s = Some a"
  shows "broker (config s) \<noteq> [] \<and>
         notifications (snd (snd (Session_start create_rc h connect_rc s))) = [(a, OnStateChange CONNECTED)] \<and>
         state_changes (snd (snd (Session_start create_rc h connect_rc s))) = [CONNECTED] \<and>
         Session_getState (fst (snd (Session_start create_rc h connect_rc s))) = CONNECTED"
  using assms
  by (auto simp: Session_start_def Session_getState_def notify_def Let_def split: if_splits)

theorem start_notifies_connected_once_witness:
  "fst (Session_start 0 1 0 session_C1) \<and> sessionHandler session_C1 = Some 7 \<and>
   notifications (snd (snd (Session_start 0 1 0 session_C1))) = [(7, OnStateChange CONNECTED)] \<and>
   Session_getState (fst (snd (Session_start 0 1 0 session_C1))) = CONNECTED"
proof -
  have a: "fst (Session_start 0 1 0 session_C1)"
    by (simp add: session_C1_def Session_init_def setBroker_def cstr_def ConnectionConfig_init_def
      Session_start_def notify_def Let_def)
  have b: "sessionHandler session_C1 = Some 7"
    by (simp add: session_C1_def Session_init_def)
  from start_notifies_connected_once [OF a b] a b show ?thesis by simp
qed

text \<open>
  The sequence of state changes that the handler sees during a successful start on the
  broker \<open>test.broker:1883\<close> is [Connected], not [Connecting, Connected].
\<close>

theorem start_state_sequence_counterexample:
  "broker (config session_C1) \<noteq> [] \<and>
   fst (Session_start 0 1 0 session_C1) \<and>
   Session_getState (fst (snd (Session_start 0 1 0 session_C1))) = CONNECTED \<and>
   state_changes (snd (snd (Session_start 0 1 0 session_C1))) = [CONNECTED] \<and>
   state_changes (snd (snd (Session_start 0 1 0 session_C1))) \<noteq> [CONNECTING, CONNECTED]"
  by (simp add: session_C1_def Session_init_def setBroker_def cstr_def ConnectionConfig_init_def
      Session_start_def Session_getState_def notify_def Let_def)

text \<open>
  Claim C2, as the code has it. With an empty broker, start returns false, leaves the
  session unchanged and writes one line to the standard error stream; no handler is
  called. The failures that do reach the handler's \<open>onError\<close>, once each, are the engine's:
  a failed client creation and a failed connect.
\<close>

theorem start_empty_broker_only_stderr:
  "(broker (config s) = [] \<longrightarrow>
      Session_start create_rc h connect_rc s = (False, s, [Cerr ''Broker URL not set''])) \<and>
   (broker (config s) \<noteq> [] \<and> create_rc \<noteq> 0 \<and> sessionHandler s = Some a \<longrightarrow>
      fst (Session_start create_rc h connect_rc s) = False \<and>
      notifications (snd (snd (Session_start create_rc h connect_rc s))) =
        [(a, OnError create_rc ''Failed to create client'')]) \<and>
   (broker (config s) \<noteq> [] \<and> create_rc = 0 \<and> connect_rc \<noteq> 0 \<and> sessionHandler s = Some a \<longrightarrow>
      fst (Session_start create_rc h connect_rc s) = False \<and>
      notifications (snd (snd (Session_start create_rc h connect_rc s))) =
        [(a, OnError connect_rc ''Connection failed'')])"
  by (simp add: Session_start_def notify_def Let_def)

theorem start_empty_broker_only_stderr_witness:
  "broker (config (Session_init ''client-1'' 7)) = [] \<and>
   Session_start 0 1 0 (Session_init ''client-1'' 7) =
     (False, Session_init ''client-1'' 7, [Cerr ''Broker URL not set'']) \<and>
   broker (config session_C1) \<noteq> [] \<and> (3 :: cint) \<noteq> 0 \<and> sessionHandler session_C1 = Some 7 \<and>
   notifications (snd (snd (Session_start 3 1 0 session_C1))) = [(7, OnError 3 ''Failed to create client'')] \<and>
   notifications (snd (snd (Session_start 0 1 3 session_C1))) = [(7, OnError 3 ''Connection failed'')]"
proof -
  have a: "broker (config (Session_init ''client-1'' 7)) = []"
    and b: "broker (config session_C1) \<noteq> []"
    and c: "sessionHandler session_C1 = Some 7"
    by (simp_all add: session_C1_def ex_defs)
  from start_empty_broker_only_stderr [of "Session_init ''client-1'' 7" 0 1 0 7]
       start_empty_broker_only_stderr [of session_C1 3 1 0 7]
       start_empty_broker_only_stderr [of session_C1 0 1 3 7] a b c
  show ?thesis by simp
qed

text \<open>
  On a fresh session (empty broker, handler installed) start fails and the handler receives
  nothing.
\<close>

theorem start_empty_broker_counterexample:
  "broker (config (Session_init ''client-1'' 7)) = [] \<and>
   sessionHandler (Session_init ''client-1'' 7) = Some 7 \<and>
   fst (Session_start 0 1 0 (Session_init ''client-1'' 7)) = False \<and>
   notifications (snd (snd (Session_start 0 1 0 (Session_init ''client-1'' 7)))) = [] \<and>
   errors_reported (snd (snd (Session_start 0 1 0 (Session_init ''client-1'' 7)))) = []"
  by (simp add: Session_init_def ConnectionConfig_init_def Session_start_def Let_def)

lemma counter_range:
  "unat (nextMessageId s) + length ops < 2 ^ 63 \<Longrightarrow>
   unat (nextMessageId s) \<le> unat (nextMessageId (exec ops s)) \<and>
   unat (nextMessageId (exec ops s)) \<le> unat (nextMessageId s) + length ops"
proof (induction ops arbitrary: s)
  case Nil
  then show ?case by simp
next
  case (Cons x xs)
  let ?s' = "fst (snd (step x s))"
  have small: "unat (nextMessageId s) < 2 ^ 63" using Cons.prems by simp
  have un: "unat (nextMessageId ?s') = unat (nextMessageId s) \<or>
            unat (nextMessageId ?s') = Suc (unat (nextMessageId s))"
    by (cases x) (simp_all add: step_nextMessageId unat_succ [OF small] del: step.simps)
  then have "unat (nextMessageId ?s') + length xs < 2 ^ 63"
    using Cons.prems by auto
  from Cons.IH [OF this] un show ?case
    by (auto simp del: step.simps)
qed

lemma ids_below_counter:
  "unat (nextMessageId s) + length ops < 2 ^ 63 \<Longrightarrow>
   \<forall>i \<in> set (returned_ids (history ops s)). unat i < unat (nextMessageId (exec ops s))"
proof (induction ops arbitrary: s)
  case Nil
  then show ?case by simp
next
  case (Cons x xs)
  let ?s' = "fst (snd (step x s))"
  have small: "unat (nextMessageId s) < 2 ^ 63" using Cons.prems by simp
  have un: "unat (nextMessageId ?s') = unat (nextMessageId s) \<or>
            unat (nextMessageId ?s') = Suc (unat (nextMessageId s))"
    by (cases x) (simp_all add: step_nextMessageId unat_succ [OF small] del: step.simps)
  then have b: "unat (nextMessageId ?s') + length xs < 2 ^ 63"
    using Cons.prems by auto
  note ih = Cons.IH [OF b]
  note rg = counter_range [OF b]
  show ?case
  proof (cases "\<exists>tp pl q r. x = Publish 0 tp pl q r")
    case True
    then obtain tp pl q r where x: "x = Publish 0 tp pl q r" by blast
    have nxt: "unat (nextMessageId ?s') = Suc (unat (nextMessageId s))"
      by (simp add: step_nextMessageId x unat_succ [OF small] del: step.simps)
    have hd: "returned_ids (history (x # xs) s) = nextMessageId s # returned_ids (history xs ?s')"
      using neq_minus1 [OF small]
      by (simp add: returned_ids_Cons step_Publish_ret x del: step.simps)
    have "unat (nextMessageId s) < unat (nextMessageId (exec xs ?s'))"
      using rg nxt by simp
    then show ?thesis using ih by (simp add: hd del: step.simps history.simps)
  next
    case False
    have same: "returned_ids (history (x # xs) s) = returned_ids (history xs ?s')"
      using False
      by (cases x) (auto simp: returned_ids_Cons step_Publish_ret simp del: step.simps)
    show ?thesis using ih by (simp add: same del: step.simps history.simps)
  qed
qed

text \<open>
  Claim C9. On a session reached from a fresh one by any sequence of fewer than
  \<open>2^63 - 1\<close> calls: when the engine accepts the message, publish returns the current
  counter value, which is positive and was never returned before, and calls no handler;
  when the engine refuses it, publish returns \<open>-1\<close> and calls \<open>onError\<close> on the installed
  handler exactly once.
\<close>

theorem publish_reports_on_both_channels:
  assumes "length ops < 2 ^ 63 - 1"
  shows "fst (Session_publish 0 tp pl q r (exec ops (Session_init cid h))) =
           nextMessageId (exec ops (Session_init cid h)) \<and>
         0 < sint (nextMessageId (exec ops (Session_init cid h))) \<and>
         nextMessageId (exec ops (Session_init cid h)) \<notin> set (returned_ids (history ops (Session_init cid h))) \<and>
         notifications (snd (snd (Session_publish 0 tp pl q r (exec ops (Session_init cid h))))) = [] \<and>
         (rc \<noteq> 0 \<and> sessionHandler (exec ops (Session_init cid h)) = Some a \<longrightarrow>
            fst (Session_publish rc tp pl q r (exec ops (Session_init cid h))) = - 1 \<and>
            notifications (snd (snd (Session_publish rc tp pl q r (exec ops (Session_init cid h))))) =
              [(a, OnError rc ''Publish failed'')])"
proof -
  let ?s = "exec ops (Session_init cid h)"
  have b: "unat (nextMessageId (Session_init cid h)) + length ops < 2 ^ 63"
    using assms by simp
  from counter_range [OF b] have lo: "1 \<le> unat (nextMessageId ?s)"
    and hi: "unat (nextMessageId ?s) \<le> 1 + length ops" by simp_all
  have small: "unat (nextMessageId ?s) < 2 ^ 63" using hi assms by simp
  have "sint (nextMessageId ?s) = int (unat (nextMessageId ?s))" using small by (rule sint_small)
  moreover have "0 < int (unat (nextMessageId ?s))" using lo by linarith
  ultimately have pos: "0 < sint (nextMessageId ?s)" by (simp only:)
  have fresh: "nextMessageId ?s \<notin> set (returned_ids (history ops (Session_init cid h)))"
    using ids_below_counter [OF b] by blast
  show ?thesis using pos fresh
    by (simp add: Session_publish_def notify_def Let_def)
qed

theorem publish_reports_on_both_channels_witness:
  "length ops_C3 < 2 ^ 63 - 1 \<and>
   fst (Session_publish 0 ''t/1'' [104] AT_LEAST_ONCE False (exec ops_C3 (Session_init ''c'' 7))) = 3 \<and>
   (4 :: cint) \<noteq> 0 \<and> sessionHandler (exec ops_C3 (Session_init ''c'' 7)) = Some 7 \<and>
   fst (Session_publish 4 ''t/1'' [104] AT_LEAST_ONCE False (exec ops_C3 (Session_init ''c'' 7))) = - 1 \<and>
   notifications (snd (snd (Session_publish 4 ''t/1'' [104] AT_LEAST_ONCE False
      (exec ops_C3 (Session_init ''c'' 7))))) = [(7, OnError 4 ''Publish failed'')]"
proof -
  have len: "length ops_C3 < 2 ^ 63 - 1" by (simp add: ops_C3_def)
  have h: "sessionHandler (exec ops_C3 (Session_init ''c'' 7)) = Some 7"
    and n: "nextMessageId (exec ops_C3 (Session_init ''c'' 7)) = 3"
    by (simp_all add: ops_C3_def op_defs ex_defs)
  from publish_reports_on_both_channels [OF len, of "''t/1''" "[104]" AT_LEAST_ONCE False "''c''" 7 4 7]
       len h n
  show ?thesis by simp
qed












subsection \<open>The bridge\<close>


text \<open>What \<open>mqtt_create_session\<close> leaves behind for the handle it returns (the third
  address it allocates): a handle record that points to the session, a session without a
  native client whose handler pointer is the adapter, and the adapter, alive, owned by the
  registry entry of the handle.\<close>

lemma create_session_wires:
  assumes "g_factory w = Some f" and "g_session_handlers w (next_addr w + 2) = None"
    and "g_message_handlers w (next_addr w + 2) = None"
  shows "fst (mqtt_create_session client_id mcb scb ecb ctx w) = Some (next_addr w + 2) \<and>
         map_option session (handles (snd (mqtt_create_session client_id mcb scb ecb ctx w)) (next_addr w + 2))
           = Some (Some (next_addr w + 1)) \<and>
         map_option sessionHandler
            (sessions (snd (mqtt_create_session client_id mcb scb ecb ctx w)) (next_addr w + 1))
           = Some (Some (next_addr w)) \<and>
         map_option client
            (sessions (snd (mqtt_create_session client_id mcb scb ecb ctx w)) (next_addr w + 1))
           = Some None \<and>
         g_session_handlers (snd (mqtt_create_session client_id mcb scb ecb ctx w)) (next_addr w + 2)
           = Some (next_addr w) \<and>
         session_adapters (snd (mqtt_create_session client_id mcb scb ecb ctx w)) (next_addr w)
           = Some \<lparr>adapter_state_cb = scb, adapter_error_cb = ecb, adapter_context = ctx\<rparr>"
  using assms
  by (cases mcb)
     (simp_all add: mqtt_create_session_def assign_message_handler_def assign_session_handler_def
        Session_init_def setMessageHandler_def Let_def)




text \<open>
  Claim C7. While the factory pointer is null (as it is before the first
  \<open>mqtt_initialize\<close>), \<open>mqtt_create_session\<close> returns the null handle for every client id,
  every combination of callbacks and every user context, and leaves the whole bridge
  state, registries and heaps included, as it was.
\<close>

theorem create_session_needs_initialize:
  "g_factory w = None \<Longrightarrow> mqtt_create_session client_id mcb scb ecb ctx w = (None, w)"
  by (simp add: mqtt_create_session_def)

theorem create_session_needs_initialize_witness:
  "g_factory bridge_init = None \<and>
   mqtt_create_session ''client-1'' (Some 102) (Some 100) (Some 101) 55 bridge_init = (None, bridge_init)"
proof -
  have a: "g_factory bridge_init = None" by (simp add: bridge_init_def)
  from create_session_needs_initialize [OF a] a show ?thesis by simp
qed

text \<open>
  Claim C8. On a valid handle, the integer setter called with CleanSession or TlsEnabled,
  and the boolean setter called with any of the five other codes, return 0 and leave the
  bridge state unchanged, so every field of the session's configuration keeps its value.
\<close>

theorem setters_ignore_foreign_codes:
  assumes "lookup (Some h) w = Some (p, s)"
  shows "(param \<in> {CLEAN_SESSION, TLS_ENABLED} \<longrightarrow>
            mqtt_set_int_parameter (Some h) param v w = (0, w)) \<and>
         (param \<notin> {CLEAN_SESSION, TLS_ENABLED} \<longrightarrow>
            mqtt_set_bool_parameter (Some h) param b w = (0, w))"
proof -
  have live: "sessions w p = Some s"
    using assms by (auto simp: lookup_def split: option.splits)
  have same: "w\<lparr>sessions := (sessions w)(p \<mapsto> s)\<rparr> = w"
    using live by (simp add: map_upd_triv)
  show ?thesis
    using assms same
    by (cases param) (simp_all add: mqtt_set_int_parameter_def mqtt_set_bool_parameter_def with_config_def)
qed

theorem setters_ignore_foreign_codes_witness:
  "lookup (Some 4) bridge_C8 = Some (3, Session_init ''client-1'' 2) \<and>
   mqtt_set_int_parameter (Some 4) CLEAN_SESSION 0 bridge_C8 = (0, bridge_C8) \<and>
   mqtt_set_int_parameter (Some 4) TLS_ENABLED 1 bridge_C8 = (0, bridge_C8) \<and>
   mqtt_set_bool_parameter (Some 4) KEEP_ALIVE_INTERVAL 1 bridge_C8 = (0, bridge_C8) \<and>
   mqtt_set_bool_parameter (Some 4) MAX_INFLIGHT 1 bridge_C8 = (0, bridge_C8)"
proof -
  have a: "lookup (Some 4) bridge_C8 = Some (3, Session_init ''client-1'' 2)"
    by (simp add: bridge_C8_def setup_defs)
  from setters_ignore_foreign_codes [OF a, of CLEAN_SESSION 0 1]
       setters_ignore_foreign_codes [OF a, of TLS_ENABLED 1 1]
       setters_ignore_foreign_codes [OF a, of KEEP_ALIVE_INTERVAL 1 1]
       setters_ignore_foreign_codes [OF a, of MAX_INFLIGHT 1 1] a
  show ?thesis by simp
qed

end
